theory Spec2Isabelle
  imports Main "HOL-Library.Word"
begin

section \<open>The deployment watcher of nomad/deploymentwatcher/deployment_watcher.go\<close>

text \<open>
  The watcher talks to three collaborators: the rate limiter, the state reader
  (\<open>DeploymentStateWatchers\<close>) and the write trigger (\<open>deploymentTriggers\<close>).
  None of them is part of the file; they are interfaces. The embedding takes them as a
  record of functions, \<open>env\<close>, that give the result of the n-th call made to the
  collaborators, and threads a \<open>world\<close> through every function of the watcher: the number
  of calls made so far, the writes and log lines requested so far, and the deferred
  functions started and not yet run.

  A watcher is taken as \<open>newDeploymentWatcher\<close> leaves it: the deployment, the job and the
  map \<open>autorevert\<close> do not change afterwards. \<open>StopWatch\<close> cancels the context; the
  watcher sees that as the error \<open>context.Canceled\<close> from the limiter's wait.
\<close>

subsection \<open>Data\<close>

type_synonym uint64 = "64 word"

text \<open>A Go \<open>error\<close>: \<open>context.Canceled\<close>, which the watch loop compares against, or
  any other error.\<close>

datatype error = Canceled | Failure string

text \<open>A Go function either returns or panics (here: a nil pointer is dereferenced).\<close>

datatype 'a go = Panic | Return 'a

record Deployment =
  dep_ID :: string
  dep_JobID :: string

record Job =
  job_ID :: string
  job_Priority :: int
  job_Type :: string
  Version :: uint64
  Stable :: bool

record Evaluation =
  eval_ID :: string
  eval_Priority :: int
  eval_Type :: string
  TriggeredBy :: string
  eval_JobID :: string
  eval_DeploymentID :: string
  eval_Status :: string
  SnapshotIndex :: uint64
  CreateIndex :: uint64

record DeploymentStatusUpdate =
  dsu_DeploymentID :: string
  dsu_Status :: string
  StatusDescription :: string

record AllocDeploymentStatus =
  Healthy :: "bool option"
  ModifyIndex :: uint64

record AllocListStub =
  alloc_ID :: string
  alloc_TaskGroup :: string
  DeploymentStatus :: "AllocDeploymentStatus option"

record DeploymentSpecificRequest =
  dsr_DeploymentID :: string
  MinQueryIndex :: uint64

record JobSpecificRequest =
  jsr_JobID :: string

record AllocListResponse =
  alr_Allocations :: "AllocListStub list"
  alr_Index :: uint64

record JobEvaluationsResponse =
  jer_Evaluations :: "Evaluation list"
  jer_Index :: uint64

record JobVersionsResponse =
  jvr_Versions :: "Job list"

record DeploymentAllocHealthRequest =
  dahr_DeploymentID :: string
  HealthyAllocationIDs :: "string list"
  UnhealthyAllocationIDs :: "string list"

record ApplyDeploymentAllocHealthRequest =
  adahr_Request :: DeploymentAllocHealthRequest
  adahr_Eval :: Evaluation
  adahr_DeploymentUpdate :: "DeploymentStatusUpdate option"
  adahr_Job :: "Job option"

record DeploymentPromoteRequest =
  dpr_DeploymentID :: string
  dpr_All :: bool
  dpr_Groups :: "string list"

record ApplyDeploymentPromoteRequest =
  adpr_Request :: DeploymentPromoteRequest
  adpr_Eval :: Evaluation

record DeploymentPauseRequest =
  dpause_DeploymentID :: string
  Pause :: bool

record DeploymentUpdateResponse =
  EvalID :: string
  EvalCreateIndex :: uint64
  DeploymentModifyIndex :: uint64

text \<open>
  The constants of package \<open>structs\<close> that the watcher uses. Their text is not in the
  watcher's file, so they are parameters of the model.
\<close>

record structs =
  DeploymentStatusRunning :: string
  DeploymentStatusPaused :: string
  DeploymentStatusFailed :: string
  DeploymentStatusDescriptionRunning :: string
  DeploymentStatusDescriptionPaused :: string
  DeploymentStatusDescriptionFailedAllocations :: string
  EvalTriggerRollingUpdate :: string
  EvalStatusPending :: string

text \<open>Modelled from the spec: \<open>AllocDeploymentStatus.IsUnhealthy\<close> of package
  \<open>structs\<close> is missing. The spec gives the status a health flag that is healthy,
  unhealthy or unset; unhealthy is the flag set to false, and a nil status is not unhealthy.\<close>

definition IsUnhealthy :: "AllocDeploymentStatus option \<Rightarrow> bool" where
  "IsUnhealthy a = (case a of None \<Rightarrow> False | Some st \<Rightarrow> Healthy st = Some False)"

text \<open>The struct \<open>deploymentWatcher\<close>. The limiter, the triggers and the state watchers
  are in \<open>env\<close>; the logger's output is in the \<open>world\<close>.\<close>

record deploymentWatcher =
  d :: Deployment
  j :: Job
  autorevert :: "string \<rightharpoonup> bool"
  outstandingBatch :: bool

text \<open>Reading a Go \<open>map[string]bool\<close>: a missing key reads as false.\<close>

definition autorevert_at :: "deploymentWatcher \<Rightarrow> string \<Rightarrow> bool" where
  "autorevert_at w g = (case autorevert w g of None \<Rightarrow> False | Some b \<Rightarrow> b)"

subsection \<open>The collaborators and the world\<close>

text \<open>The places where the watcher logs an error.\<close>

datatype log_site =
    FailedRetrieveAllocations
  | FailedLastEvaluationIndex
  | FailedLookupStableJob
  | FailedUpdateStatus
  | FailedCreateEvaluation

datatype call =
    CreateEvaluation Evaluation
  | UpsertDeploymentStatusUpdate DeploymentStatusUpdate "Evaluation option" "Job option"
  | UpsertDeploymentPromotion ApplyDeploymentPromoteRequest
  | UpsertDeploymentAllocHealth ApplyDeploymentAllocHealthRequest
  | Log log_site error

record env =
  Wait :: "nat \<Rightarrow> error option"
  Allocations :: "nat \<Rightarrow> DeploymentSpecificRequest \<Rightarrow> error + AllocListResponse"
  Evaluations :: "nat \<Rightarrow> JobSpecificRequest \<Rightarrow> error + JobEvaluationsResponse"
  GetJobVersions :: "nat \<Rightarrow> JobSpecificRequest \<Rightarrow> error + JobVersionsResponse"
  createEvaluation :: "nat \<Rightarrow> Evaluation \<Rightarrow> error + uint64"
  upsertDeploymentStatusUpdate ::
    "nat \<Rightarrow> DeploymentStatusUpdate \<Rightarrow> Evaluation option \<Rightarrow> Job option \<Rightarrow> error + uint64"
  upsertDeploymentPromotion :: "nat \<Rightarrow> ApplyDeploymentPromoteRequest \<Rightarrow> error + uint64"
  upsertDeploymentAllocHealth :: "nat \<Rightarrow> ApplyDeploymentAllocHealthRequest \<Rightarrow> error + uint64"
  GenerateUUID :: "nat \<Rightarrow> string"

record world =
  clock :: nat
  trace :: "call list"
  deferred :: nat

definition tick :: "world \<Rightarrow> world" where
  "tick s = s\<lparr>clock := Suc (clock s)\<rparr>"

definition emit :: "call \<Rightarrow> world \<Rightarrow> world" where
  "emit c s = s\<lparr>trace := trace s @ [c]\<rparr>"

subsection \<open>Helpers of the watcher\<close>

definition getEval :: "structs \<Rightarrow> env \<Rightarrow> deploymentWatcher \<Rightarrow> world \<Rightarrow> Evaluation \<times> world" where
  "getEval S E w s =
     (\<lparr>eval_ID = GenerateUUID E (clock s),
       eval_Priority = job_Priority (j w),
       eval_Type = job_Type (j w),
       TriggeredBy = EvalTriggerRollingUpdate S,
       eval_JobID = job_ID (j w),
       eval_DeploymentID = dep_ID (d w),
       eval_Status = EvalStatusPending S,
       SnapshotIndex = 0,
       CreateIndex = 0\<rparr>, tick s)"

definition getDeploymentStatusUpdate ::
  "deploymentWatcher \<Rightarrow> string \<Rightarrow> string \<Rightarrow> DeploymentStatusUpdate" where
  "getDeploymentStatusUpdate w status desc =
     \<lparr>dsu_DeploymentID = dep_ID (d w), dsu_Status = status, StatusDescription = desc\<rparr>"

text \<open>\<open>latestEvalIndex\<close>: wait on the limiter, read the evaluations of the job, and
  take the index from the first one listed.\<close>

definition latestEvalIndex :: "env \<Rightarrow> deploymentWatcher \<Rightarrow> world \<Rightarrow> (error + uint64) \<times> world" where
  "latestEvalIndex E w s =
     (case Wait E (clock s) of
        Some err \<Rightarrow> (Inl err, tick s)
      | None \<Rightarrow>
          (case Evaluations E (clock (tick s)) \<lparr>jsr_JobID = dep_JobID (d w)\<rparr> of
             Inl err \<Rightarrow> (Inl err, tick (tick s))
           | Inr resp \<Rightarrow>
               (case jer_Evaluations resp of
                  [] \<Rightarrow> (Inr (jer_Index resp), tick (tick s))
                | e # _ \<Rightarrow>
                    if SnapshotIndex e \<noteq> 0 then (Inr (SnapshotIndex e), tick (tick s))
                    else (Inr (CreateIndex e), tick (tick s)))))"

definition latestStableJob ::
  "env \<Rightarrow> deploymentWatcher \<Rightarrow> world \<Rightarrow> (error + Job option) \<times> world" where
  "latestStableJob E w s =
     (case GetJobVersions E (clock s) \<lparr>jsr_JobID = dep_JobID (d w)\<rparr> of
        Inl err \<Rightarrow> (Inl err, tick s)
      | Inr resp \<Rightarrow> (Inr (find Stable (jvr_Versions resp)), tick s))"

text \<open>\<open>%d\<close> of an unsigned integer: its decimal digits.\<close>

function decimal :: "nat \<Rightarrow> string" where
  "decimal n =
     (if n < 10 then [''0123456789'' ! n]
      else decimal (n div 10) @ [''0123456789'' ! (n mod 10)])"
  by pat_completeness auto
termination
  by (relation "measure (\<lambda>n. n)") auto

declare decimal.simps [simp del]

text \<open>\<open>fmt.Sprintf("%s - rolling back to job version %d", desc, j.Version)\<close>\<close>

definition rolling_back :: "string \<Rightarrow> uint64 \<Rightarrow> string" where
  "rolling_back desc v = desc @ '' - rolling back to job version '' @ decimal (unat v)"

subsection \<open>SetAllocHealth, PromoteDeployment, PauseDeployment\<close>

text \<open>The set of the request's unhealthy allocation ids, as the Go map with empty values.\<close>

definition unhealthy_of :: "string list \<Rightarrow> (string \<rightharpoonup> unit)" where
  "unhealthy_of ids = fold (\<lambda>alloc m. m(alloc \<mapsto> ())) ids Map.empty"

text \<open>
  The loop of \<open>SetAllocHealth\<close> over the allocations read back. It ends the function with
  an error when the job versions cannot be read, it panics when it reads \<open>j.Version\<close> of
  a nil job, and otherwise it leaves the loop with the job and the description.
\<close>

fun SetAllocHealth_loop ::
  "env \<Rightarrow> deploymentWatcher \<Rightarrow> (string \<rightharpoonup> unit) \<Rightarrow> string \<Rightarrow> AllocListStub list \<Rightarrow> world
     \<Rightarrow> (error + Job option \<times> string) go \<times> world" where
  "SetAllocHealth_loop E w unhealthy desc [] s = (Return (Inr (None, desc)), s)"
| "SetAllocHealth_loop E w unhealthy desc (alloc # allocs) s =
     (if unhealthy (alloc_ID alloc) = None then SetAllocHealth_loop E w unhealthy desc allocs s
      else if \<not> autorevert_at w (alloc_TaskGroup alloc)
        then SetAllocHealth_loop E w unhealthy desc allocs s
      else
        (case latestStableJob E w s of
           (Inl err, s') \<Rightarrow> (Return (Inl err), s')
         | (Inr None, s') \<Rightarrow> (Panic, s')
         | (Inr (Some job), s') \<Rightarrow>
             (Return (Inr (Some job, rolling_back desc (Version job))), s')))"

text \<open>The block under \<open>if l := len(req.UnhealthyAllocationIDs); l != 0\<close>: it gives the
  job \<open>j\<close> and the status update \<open>u\<close> of the write, both nil when the list is empty.\<close>

definition SetAllocHealth_update ::
  "structs \<Rightarrow> env \<Rightarrow> deploymentWatcher \<Rightarrow> DeploymentAllocHealthRequest \<Rightarrow> world
     \<Rightarrow> (error + Job option \<times> DeploymentStatusUpdate option) go \<times> world" where
  "SetAllocHealth_update S E w req s =
     (if length (UnhealthyAllocationIDs req) \<noteq> 0 then
        (let unhealthy = unhealthy_of (UnhealthyAllocationIDs req);
             args = \<lparr>dsr_DeploymentID = dahr_DeploymentID req, MinQueryIndex = 0\<rparr>
         in case Allocations E (clock s) args of
              Inl err \<Rightarrow> (Return (Inl err), tick s)
            | Inr resp \<Rightarrow>
                (case SetAllocHealth_loop E w unhealthy
                        (DeploymentStatusDescriptionFailedAllocations S)
                        (alr_Allocations resp) (tick s) of
                   (Panic, s') \<Rightarrow> (Panic, s')
                 | (Return (Inl err), s') \<Rightarrow> (Return (Inl err), s')
                 | (Return (Inr (job, desc)), s') \<Rightarrow>
                     (Return (Inr (job,
                        Some (getDeploymentStatusUpdate w (DeploymentStatusFailed S) desc))), s')))
      else (Return (Inr (None, None)), s))"

definition SetAllocHealth ::
  "structs \<Rightarrow> env \<Rightarrow> deploymentWatcher \<Rightarrow> DeploymentAllocHealthRequest
     \<Rightarrow> DeploymentUpdateResponse \<Rightarrow> world
     \<Rightarrow> (error + DeploymentUpdateResponse) go \<times> world" where
  "SetAllocHealth S E w req resp s =
     (case SetAllocHealth_update S E w req s of
        (Panic, s1) \<Rightarrow> (Panic, s1)
      | (Return (Inl err), s1) \<Rightarrow> (Return (Inl err), s1)
      | (Return (Inr (job, u)), s1) \<Rightarrow>
          (case getEval S E w s1 of
             (eval, s2) \<Rightarrow>
               (let areq = \<lparr>adahr_Request = req, adahr_Eval = eval,
                            adahr_DeploymentUpdate = u, adahr_Job = job\<rparr>;
                    s3 = emit (UpsertDeploymentAllocHealth areq) (tick s2)
                in case upsertDeploymentAllocHealth E (clock s2) areq of
                     Inl err \<Rightarrow> (Return (Inl err), s3)
                   | Inr index \<Rightarrow>
                       (Return (Inr (resp\<lparr>EvalID := eval_ID (adahr_Eval areq),
                                          EvalCreateIndex := index,
                                          DeploymentModifyIndex := index\<rparr>)), s3))))"

definition PromoteDeployment ::
  "structs \<Rightarrow> env \<Rightarrow> deploymentWatcher \<Rightarrow> DeploymentPromoteRequest
     \<Rightarrow> DeploymentUpdateResponse \<Rightarrow> world \<Rightarrow> (error + DeploymentUpdateResponse) \<times> world" where
  "PromoteDeployment S E w req resp s =
     (case getEval S E w s of
        (eval, s1) \<Rightarrow>
          (let areq = \<lparr>adpr_Request = req, adpr_Eval = eval\<rparr>;
               s2 = emit (UpsertDeploymentPromotion areq) (tick s1)
           in case upsertDeploymentPromotion E (clock s1) areq of
                Inl err \<Rightarrow> (Inl err, s2)
              | Inr index \<Rightarrow>
                  (Inr (resp\<lparr>EvalID := eval_ID (adpr_Eval areq),
                             EvalCreateIndex := index,
                             DeploymentModifyIndex := index\<rparr>), s2)))"

text \<open>The first lines of \<open>PauseDeployment\<close>: the status, the description, the evaluation
  (nil when pausing) and the evaluation id of the response.\<close>

definition PauseDeployment_target ::
  "structs \<Rightarrow> env \<Rightarrow> deploymentWatcher \<Rightarrow> DeploymentPauseRequest \<Rightarrow> world
     \<Rightarrow> (string \<times> string \<times> Evaluation option \<times> string) \<times> world" where
  "PauseDeployment_target S E w req s =
     (if \<not> Pause req then
        (case getEval S E w s of
           (eval, s1) \<Rightarrow>
             ((DeploymentStatusRunning S, DeploymentStatusDescriptionRunning S,
               Some eval, eval_ID eval), s1))
      else ((DeploymentStatusPaused S, DeploymentStatusDescriptionPaused S, None, []), s))"

definition PauseDeployment ::
  "structs \<Rightarrow> env \<Rightarrow> deploymentWatcher \<Rightarrow> DeploymentPauseRequest
     \<Rightarrow> DeploymentUpdateResponse \<Rightarrow> world \<Rightarrow> (error + DeploymentUpdateResponse) \<times> world" where
  "PauseDeployment S E w req resp s =
     (case PauseDeployment_target S E w req s of
        ((status, desc, eval, evalID), s1) \<Rightarrow>
          (let update = getDeploymentStatusUpdate w status desc;
               s2 = emit (UpsertDeploymentStatusUpdate update eval None) (tick s1)
           in case upsertDeploymentStatusUpdate E (clock s1) update eval None of
                Inl err \<Rightarrow> (Inl err, s2)
              | Inr i \<Rightarrow>
                  (Inr (resp\<lparr>EvalID := evalID,
                             EvalCreateIndex := i,
                             DeploymentModifyIndex := i\<rparr>), s2)))"

subsection \<open>The evaluation batcher\<close>

definition createEval ::
  "structs \<Rightarrow> env \<Rightarrow> deploymentWatcher \<Rightarrow> world \<Rightarrow> (string \<times> (error + uint64)) \<times> world" where
  "createEval S E w s =
     (case getEval S E w s of
        (e, s1) \<Rightarrow>
          ((eval_ID e, createEvaluation E (clock s1) e), emit (CreateEvaluation e) (tick s1)))"

text \<open>
  \<open>createEvalBatched\<close>, under the watcher's lock: it returns when a batch is
  outstanding, and otherwise starts the deferred function with \<open>go\<close>. The source
  assigns \<open>outstandingBatch\<close> in one place only, inside the deferred function, so the
  watcher is unchanged here and only the count of started functions grows.
\<close>

definition createEvalBatched :: "deploymentWatcher \<Rightarrow> world \<Rightarrow> deploymentWatcher \<times> world" where
  "createEvalBatched w s =
     (if outstandingBatch w then (w, s)
      else (w, s\<lparr>deferred := Suc (deferred s)\<rparr>))"

text \<open>The body of the deferred function, once its sleep of \<open>evalBatchPeriod\<close> is over:
  it clears the flag and creates the evaluation, logging a failure.\<close>

definition createEvalBatched_deferred ::
  "structs \<Rightarrow> env \<Rightarrow> deploymentWatcher \<Rightarrow> world \<Rightarrow> deploymentWatcher \<times> world" where
  "createEvalBatched_deferred S E w s =
     (let w' = w\<lparr>outstandingBatch := False\<rparr>
      in case createEval S E w' (s\<lparr>deferred := deferred s - 1\<rparr>) of
           ((evalID, Inl err), s1) \<Rightarrow> (w', emit (Log FailedCreateEvaluation err) s1)
         | ((evalID, Inr evalCreateIndex), s1) \<Rightarrow> (w', s1))"

text \<open>
  What happens to one watcher's batcher over time: a trigger is a call of
  \<open>createEvalBatched\<close>; a wake-up is one started deferred function finishing its sleep
  (there is none to wake when none was started).
\<close>

datatype batch_event = Trigger | WakeUp

fun batcher ::
  "structs \<Rightarrow> env \<Rightarrow> batch_event list \<Rightarrow> deploymentWatcher \<times> world \<Rightarrow> deploymentWatcher \<times> world" where
  "batcher S E [] (w, s) = (w, s)"
| "batcher S E (Trigger # evs) (w, s) = batcher S E evs (createEvalBatched w s)"
| "batcher S E (WakeUp # evs) (w, s) =
     (if deferred s = 0 then batcher S E evs (w, s)
      else batcher S E evs (createEvalBatched_deferred S E w s))"

text \<open>The evaluation-creation writes requested so far.\<close>

fun is_CreateEvaluation :: "call \<Rightarrow> bool" where
  "is_CreateEvaluation (CreateEvaluation e) = True"
| "is_CreateEvaluation c = False"

definition evaluation_writes :: "world \<Rightarrow> nat" where
  "evaluation_writes s = length (filter is_CreateEvaluation (trace s))"

subsection \<open>The blocking allocation fetch\<close>

text \<open>The loop \<open>for resp.Index <= index\<close> of \<open>getAllocs\<close>. It may run forever; the
  value \<open>None\<close> stands for that.\<close>

partial_function (option) getAllocs_loop ::
  "env \<Rightarrow> DeploymentSpecificRequest \<Rightarrow> uint64 \<Rightarrow> AllocListResponse \<Rightarrow> world
     \<Rightarrow> ((error + AllocListStub list) \<times> world) option" where
  "getAllocs_loop E args index resp s =
     (if alr_Index resp \<le> index then
        (case Wait E (clock s) of
           Some err \<Rightarrow> Some (Inl err, tick s)
         | None \<Rightarrow>
             (case Allocations E (clock (tick s)) args of
                Inl err \<Rightarrow> Some (Inl err, tick (tick s))
              | Inr resp' \<Rightarrow> getAllocs_loop E args index resp' (tick (tick s))))
      else Some (Inr (alr_Allocations resp), s))"

definition getAllocs ::
  "env \<Rightarrow> deploymentWatcher \<Rightarrow> uint64 \<Rightarrow> world \<Rightarrow> ((error + AllocListStub list) \<times> world) option" where
  "getAllocs E w index s =
     getAllocs_loop E \<lparr>dsr_DeploymentID = dep_ID (d w), MinQueryIndex = index\<rparr> index
       \<lparr>alr_Allocations = [], alr_Index = 0\<rparr> s"

subsection \<open>The watch loop\<close>

text \<open>The scan of the allocations, with the three flags \<open>createEval\<close> (here \<open>create\<close>),
  \<open>failDeployment\<close> and \<open>rollback\<close>, and its early \<open>break\<close>.\<close>

fun watch_scan ::
  "deploymentWatcher \<Rightarrow> uint64 \<Rightarrow> bool \<times> bool \<times> bool \<Rightarrow> AllocListStub list \<Rightarrow> bool \<times> bool \<times> bool" where
  "watch_scan w latestEval (create, failDeployment, rollback) [] =
     (create, failDeployment, rollback)"
| "watch_scan w latestEval (create, failDeployment, rollback) (alloc # allocs) =
     (case DeploymentStatus alloc of
        None \<Rightarrow> watch_scan w latestEval (create, failDeployment, rollback) allocs
      | Some st \<Rightarrow>
          if ModifyIndex st \<le> latestEval
            then watch_scan w latestEval (create, failDeployment, rollback) allocs
          else
            (let create' = True;
                 rollback' =
                   (if IsUnhealthy (DeploymentStatus alloc) \<and> autorevert_at w (alloc_TaskGroup alloc)
                    then True else rollback);
                 failDeployment' =
                   (if IsUnhealthy (DeploymentStatus alloc) then True else failDeployment)
             in if create' \<and> failDeployment' \<and> rollback'
                  then (create', failDeployment', rollback')
                else watch_scan w latestEval (create', failDeployment', rollback') allocs))"

text \<open>The first step of an iteration: the allocations, nil after a logged error.
  \<open>None\<close> inside is the \<open>return\<close> on \<open>context.Canceled\<close>.\<close>

definition watch_allocs ::
  "env \<Rightarrow> deploymentWatcher \<Rightarrow> uint64 \<Rightarrow> world \<Rightarrow> (AllocListStub list option \<times> world) option" where
  "watch_allocs E w latestEval s =
     (case getAllocs E w latestEval s of
        None \<Rightarrow> None
      | Some (Inl Canceled, s1) \<Rightarrow> Some (None, s1)
      | Some (Inl err, s1) \<Rightarrow> Some (Some [], emit (Log FailedRetrieveAllocations err) s1)
      | Some (Inr allocs, s1) \<Rightarrow> Some (Some allocs, s1))"

text \<open>The second step, the assignment \<open>latestEval, err = w.latestEvalIndex()\<close>: the new
  value of \<open>latestEval\<close>, which is what the call returned, 0 with an error.
  \<open>None\<close> is the \<open>return\<close> on \<open>context.Canceled\<close>.\<close>

definition watch_latestEval ::
  "env \<Rightarrow> deploymentWatcher \<Rightarrow> world \<Rightarrow> uint64 option \<times> world" where
  "watch_latestEval E w s =
     (case latestEvalIndex E w s of
        (Inl Canceled, s1) \<Rightarrow> (None, s1)
      | (Inl err, s1) \<Rightarrow> (Some 0, emit (Log FailedLastEvaluationIndex err) s1)
      | (Inr v, s1) \<Rightarrow> (Some v, s1))"

text \<open>
  The branch \<open>if failDeployment\<close>. With \<open>rollback\<close> set, \<open>j.Version\<close> is read
  right after the lookup, also when the lookup returned a nil job (with or without an
  error): that read panics. The result is the value of \<open>latestEval\<close> afterwards.
\<close>

definition watch_fail ::
  "structs \<Rightarrow> env \<Rightarrow> deploymentWatcher \<Rightarrow> uint64 \<Rightarrow> bool \<Rightarrow> world \<Rightarrow> uint64 go \<times> world" where
  "watch_fail S E w latestEval rollback s =
     (case (if rollback then
              (case latestStableJob E w s of
                 (Inl err, s1) \<Rightarrow> (Panic, emit (Log FailedLookupStableJob err) s1)
               | (Inr None, s1) \<Rightarrow> (Panic, s1)
               | (Inr (Some job), s1) \<Rightarrow>
                   (Return (Some job,
                      rolling_back (DeploymentStatusDescriptionFailedAllocations S) (Version job)),
                    s1))
            else (Return (None, DeploymentStatusDescriptionFailedAllocations S), s)) of
        (Panic, s1) \<Rightarrow> (Panic, s1)
      | (Return (job, desc), s1) \<Rightarrow>
          (case getEval S E w s1 of
             (e, s2) \<Rightarrow>
               (let u = getDeploymentStatusUpdate w (DeploymentStatusFailed S) desc;
                    s3 = emit (UpsertDeploymentStatusUpdate u (Some e) job) (tick s2)
                in case upsertDeploymentStatusUpdate E (clock s2) u (Some e) job of
                     Inl err \<Rightarrow> (Return latestEval, emit (Log FailedUpdateStatus err) s3)
                   | Inr index \<Rightarrow> (Return index, s3))))"

text \<open>What the iteration does with the flags of the scan.\<close>

definition watch_act ::
  "structs \<Rightarrow> env \<Rightarrow> deploymentWatcher \<Rightarrow> uint64 \<Rightarrow> bool \<times> bool \<times> bool \<Rightarrow> world
     \<Rightarrow> uint64 go \<times> world" where
  "watch_act S E w latestEval flags s =
     (case flags of
        (create, failDeployment, rollback) \<Rightarrow>
          if failDeployment then watch_fail S E w latestEval rollback s
          else if create then (Return latestEval, snd (createEvalBatched w s))
          else (Return latestEval, s))"

text \<open>One iteration of \<open>for\<close> in \<open>watch\<close>: \<open>Return None\<close> is the \<open>return\<close> of the
  function, \<open>Return (Some v)\<close> the next iteration with \<open>latestEval = v\<close>.\<close>

definition watch_cycle ::
  "structs \<Rightarrow> env \<Rightarrow> deploymentWatcher \<Rightarrow> uint64 \<Rightarrow> world \<Rightarrow> (uint64 option go \<times> world) option" where
  "watch_cycle S E w latestEval s =
     (case watch_allocs E w latestEval s of
        None \<Rightarrow> None
      | Some (None, s1) \<Rightarrow> Some (Return None, s1)
      | Some (Some allocs, s1) \<Rightarrow>
          (case watch_latestEval E w s1 of
             (None, s2) \<Rightarrow> Some (Return None, s2)
           | (Some latestEval', s2) \<Rightarrow>
               (case watch_act S E w latestEval'
                       (watch_scan w latestEval' (False, False, False) allocs) s2 of
                  (Panic, s3) \<Rightarrow> Some (Panic, s3)
                | (Return v, s3) \<Rightarrow> Some (Return (Some v), s3))))"

partial_function (option) watch_loop ::
  "structs \<Rightarrow> env \<Rightarrow> deploymentWatcher \<Rightarrow> uint64 \<Rightarrow> world \<Rightarrow> (unit go \<times> world) option" where
  "watch_loop S E w latestEval s =
     (case watch_cycle S E w latestEval s of
        None \<Rightarrow> None
      | Some r \<Rightarrow>
          (case fst r of
             Panic \<Rightarrow> Some (Panic, snd r)
           | Return None \<Rightarrow> Some (Return (), snd r)
           | Return (Some v) \<Rightarrow> watch_loop S E w v (snd r)))"

definition watch :: "structs \<Rightarrow> env \<Rightarrow> deploymentWatcher \<Rightarrow> world \<Rightarrow> (unit go \<times> world) option" where
  "watch S E w s = watch_loop S E w 0 s"

subsection \<open>Example inputs\<close>

text \<open>A deployment of job \<open>web\<close> with two task groups: \<open>A\<close> reverts automatically,
  \<open>B\<close> does not.\<close>

definition S0 :: structs where
  "S0 = \<lparr>DeploymentStatusRunning = ''running'',
          DeploymentStatusPaused = ''paused'',
          DeploymentStatusFailed = ''failed'',
          DeploymentStatusDescriptionRunning = ''Deployment is running'',
          DeploymentStatusDescriptionPaused = ''Deployment is paused'',
          DeploymentStatusDescriptionFailedAllocations = ''Failed due to unhealthy allocations'',
          EvalTriggerRollingUpdate = ''rolling-update'',
          EvalStatusPending = ''pending''\<rparr>"

definition w0 :: deploymentWatcher where
  "w0 = \<lparr>d = \<lparr>dep_ID = ''d1'', dep_JobID = ''web''\<rparr>,
          j = \<lparr>job_ID = ''web'', job_Priority = 50, job_Type = ''service'',
               Version = 3, Stable = False\<rparr>,
          autorevert = [''A'' \<mapsto> True, ''B'' \<mapsto> False],
          outstandingBatch = False\<rparr>"

definition s0 :: world where
  "s0 = \<lparr>clock = 0, trace = [], deferred = 0\<rparr>"

text \<open>Collaborators that never fail: the limiter lets every call through, the store is at
  index 1 with no allocation, no evaluation and no job version, and the n-th call, when it
  is a write, gets the index \<open>100 + n\<close>.\<close>

definition E0 :: env where
  "E0 = \<lparr>Wait = (\<lambda>n. None),
          Allocations = (\<lambda>n args. Inr \<lparr>alr_Allocations = [], alr_Index = 1\<rparr>),
          Evaluations = (\<lambda>n args. Inr \<lparr>jer_Evaluations = [], jer_Index = 1\<rparr>),
          GetJobVersions = (\<lambda>n args. Inr \<lparr>jvr_Versions = []\<rparr>),
          createEvaluation = (\<lambda>n e. Inr (100 + of_nat n)),
          upsertDeploymentStatusUpdate = (\<lambda>n u e job. Inr (100 + of_nat n)),
          upsertDeploymentPromotion = (\<lambda>n req. Inr (100 + of_nat n)),
          upsertDeploymentAllocHealth = (\<lambda>n req. Inr (100 + of_nat n)),
          GenerateUUID = (\<lambda>n. ''uuid-'' @ decimal n)\<rparr>"

definition alloc0 :: "string \<Rightarrow> string \<Rightarrow> bool option \<Rightarrow> uint64 \<Rightarrow> AllocListStub" where
  "alloc0 name g h i =
     \<lparr>alloc_ID = name, alloc_TaskGroup = g,
      DeploymentStatus = Some \<lparr>Healthy = h, ModifyIndex = i\<rparr>\<rparr>"

definition job0 :: "uint64 \<Rightarrow> bool \<Rightarrow> Job" where
  "job0 v st = \<lparr>job_ID = ''web'', job_Priority = 50, job_Type = ''service'',
                Version = v, Stable = st\<rparr>"

definition eval0 :: "string \<Rightarrow> uint64 \<Rightarrow> uint64 \<Rightarrow> Evaluation" where
  "eval0 name snap cr =
     \<lparr>eval_ID = name, eval_Priority = 50, eval_Type = ''service'',
      TriggeredBy = ''rolling-update'', eval_JobID = ''web'', eval_DeploymentID = ''d1'',
      eval_Status = ''complete'', SnapshotIndex = snap, CreateIndex = cr\<rparr>"

text \<open>Two evaluations listed, the first not yet taken up by the scheduler (snapshot
  index 0, created at index 12).\<close>

definition E7 :: env where
  "E7 = E0\<lparr>Evaluations := (\<lambda>n args. Inr \<lparr>jer_Evaluations = [eval0 ''e2'' 0 12, eval0 ''e1'' 9 7],
                                              jer_Index = 15\<rparr>)\<rparr>"

subsection \<open>Vocabulary for the blocking fetch\<close>

text \<open>
  A round of \<open>getAllocs\<close> is a wait on the limiter followed by a query; it starts at
  call number \<open>n\<close>. The loop goes round again after a round in which both succeed and the
  response's index is not above the requested one.
\<close>

definition idle_round :: "env \<Rightarrow> DeploymentSpecificRequest \<Rightarrow> uint64 \<Rightarrow> nat \<Rightarrow> bool" where
  "idle_round E args index n =
     (Wait E n = None \<and>
      (case Allocations E (Suc n) args of Inl err \<Rightarrow> False | Inr resp \<Rightarrow> alr_Index resp \<le> index))"

text \<open>The round after which the loop returns, with what it returns and the call number
  reached: an error of the wait, an error of the query, or the allocations of a response
  whose index is above the requested one.\<close>

definition last_round ::
  "env \<Rightarrow> DeploymentSpecificRequest \<Rightarrow> uint64 \<Rightarrow> nat \<Rightarrow> (error + AllocListStub list) \<times> nat \<Rightarrow> bool" where
  "last_round E args index n out =
     (case Wait E n of
        Some err \<Rightarrow> out = (Inl err, Suc n)
      | None \<Rightarrow>
          (case Allocations E (Suc n) args of
             Inl err \<Rightarrow> out = (Inl err, Suc (Suc n))
           | Inr resp \<Rightarrow> index < alr_Index resp \<and> out = (Inr (alr_Allocations resp), Suc (Suc n))))"

text \<open>A store whose first answer is stale (index 3) and whose second answer is at index 8.\<close>

definition E1 :: env where
  "E1 = E0\<lparr>Allocations := (\<lambda>n args.
            if n < 2 then Inr \<lparr>alr_Allocations = [], alr_Index = 3\<rparr>
            else Inr \<lparr>alr_Allocations = [alloc0 ''a1'' ''A'' (Some True) 8], alr_Index = 8\<rparr>)\<rparr>"

subsection \<open>Vocabulary and example inputs for SetAllocHealth\<close>

text \<open>An allocation read back that makes \<open>SetAllocHealth\<close> look for a job to roll back
  to: the request reports it unhealthy and its task group reverts automatically.\<close>

definition reverts :: "deploymentWatcher \<Rightarrow> string list \<Rightarrow> AllocListStub \<Rightarrow> bool" where
  "reverts w ids alloc = (alloc_ID alloc \<in> set ids \<and> autorevert_at w (alloc_TaskGroup alloc))"

text \<open>One allocation of group \<open>A\<close>, and a job history with no stable version.\<close>

definition E5 :: env where
  "E5 = E0\<lparr>Allocations := (\<lambda>n args. Inr \<lparr>alr_Allocations = [alloc0 ''a1'' ''A'' (Some False) 10],
                                              alr_Index = 10\<rparr>),
            GetJobVersions := (\<lambda>n args. Inr \<lparr>jvr_Versions = [job0 3 False, job0 2 False]\<rparr>)\<rparr>"


definition req0 :: "string list \<Rightarrow> DeploymentAllocHealthRequest" where
  "req0 ids = \<lparr>dahr_DeploymentID = ''d1'', HealthyAllocationIDs = [], UnhealthyAllocationIDs = ids\<rparr>"

definition resp0 :: DeploymentUpdateResponse where
  "resp0 = \<lparr>EvalID = [], EvalCreateIndex = 0, DeploymentModifyIndex = 0\<rparr>"

subsection \<open>Vocabulary and example inputs for the watch loop\<close>

text \<open>An allocation counts in the scan against an index when it has a deployment status
  whose modify index is above that index.\<close>

definition changed :: "uint64 \<Rightarrow> AllocListStub \<Rightarrow> bool" where
  "changed latestEval alloc =
     (case DeploymentStatus alloc of None \<Rightarrow> False | Some st \<Rightarrow> latestEval < ModifyIndex st)"

text \<open>The three flags as properties of the whole list: some allocation counts; some
  allocation that counts is unhealthy; some allocation that counts is unhealthy and in a
  group that reverts automatically.\<close>

definition scan_flags :: "deploymentWatcher \<Rightarrow> uint64 \<Rightarrow> AllocListStub list \<Rightarrow> bool \<times> bool \<times> bool" where
  "scan_flags w latestEval allocs =
     (list_ex (changed latestEval) allocs,
      list_ex (\<lambda>a. changed latestEval a \<and> IsUnhealthy (DeploymentStatus a)) allocs,
      list_ex (\<lambda>a. changed latestEval a \<and> IsUnhealthy (DeploymentStatus a)
                   \<and> autorevert_at w (alloc_TaskGroup a)) allocs)"

text \<open>Allocation \<open>a1\<close> of group \<open>B\<close>, healthy, changed at index 10; the latest
  evaluation has snapshot index 20.\<close>

definition E2 :: env where
  "E2 = E0\<lparr>Allocations := (\<lambda>n args. Inr \<lparr>alr_Allocations = [alloc0 ''a1'' ''B'' (Some True) 10],
                                              alr_Index = 10\<rparr>),
            Evaluations := (\<lambda>n args. Inr \<lparr>jer_Evaluations = [eval0 ''e1'' 20 18], jer_Index = 20\<rparr>)\<rparr>"

text \<open>Allocation \<open>a1\<close> of group \<open>A\<close>, unhealthy, changed at index 10; no evaluation,
  the store at index 5; no stable version of the job (\<open>E3\<close>), the job versions unreadable
  (\<open>E3e\<close>), or version 2 stable (\<open>E3s\<close>).\<close>

definition E3 :: env where
  "E3 = E0\<lparr>Allocations := (\<lambda>n args. Inr \<lparr>alr_Allocations = [alloc0 ''a1'' ''A'' (Some False) 10],
                                              alr_Index = 10\<rparr>),
            Evaluations := (\<lambda>n args. Inr \<lparr>jer_Evaluations = [], jer_Index = 5\<rparr>),
            GetJobVersions := (\<lambda>n args. Inr \<lparr>jvr_Versions = [job0 3 False, job0 2 False]\<rparr>)\<rparr>"

definition E3e :: env where
  "E3e = E3\<lparr>GetJobVersions := (\<lambda>n args. Inl (Failure ''no leader''))\<rparr>"

definition E3s :: env where
  "E3s = E3\<lparr>GetJobVersions := (\<lambda>n args. Inr \<lparr>jvr_Versions = [job0 3 False, job0 2 True]\<rparr>)\<rparr>"

text \<open>The allocations at index 55 and the latest evaluation with snapshot index 30
  (\<open>E4s\<close>); the evaluations unreadable (\<open>E4\<close>).\<close>

definition E4s :: env where
  "E4s = E0\<lparr>Allocations := (\<lambda>n args. Inr \<lparr>alr_Allocations = [alloc0 ''a1'' ''B'' (Some True) 10],
                                               alr_Index = 55\<rparr>),
             Evaluations := (\<lambda>n args. Inr \<lparr>jer_Evaluations = [eval0 ''e1'' 30 28], jer_Index = 60\<rparr>)\<rparr>"

definition E4 :: env where
  "E4 = E2\<lparr>Evaluations := (\<lambda>n args. Inl (Failure ''no leader''))\<rparr>"

section \<open>Properties\<close>

subsection \<open>latestEvalIndex\<close>

text \<open>
  C7. Whenever the limiter lets the call through and the read of the job's evaluations
  succeeds, \<open>latestEvalIndex\<close> returns the store's index when no evaluation is listed,
  otherwise the snapshot index of the first evaluation listed when that is not zero,
  otherwise the create index of that evaluation.
\<close>

theorem latestEvalIndex_value:
  assumes "Wait E (clock s) = None"
    and "Evaluations E (Suc (clock s)) \<lparr>jsr_JobID = dep_JobID (d w)\<rparr> = Inr resp"
  shows "fst (latestEvalIndex E w s) =
           Inr (case jer_Evaluations resp of
                  [] \<Rightarrow> jer_Index resp
                | e # _ \<Rightarrow> if SnapshotIndex e \<noteq> 0 then SnapshotIndex e else CreateIndex e)"
  using assms by (simp add: latestEvalIndex_def tick_def split: list.split)

theorem latestEvalIndex_value_witness:
  "Wait E7 (clock s0) = None
   \<and> Evaluations E7 (Suc (clock s0)) \<lparr>jsr_JobID = dep_JobID (d w0)\<rparr> =
       Inr \<lparr>jer_Evaluations = [eval0 ''e2'' 0 12, eval0 ''e1'' 9 7], jer_Index = 15\<rparr>
   \<and> fst (latestEvalIndex E7 w0 s0) = Inr 12"
  using latestEvalIndex_value
    [where E = E7 and s = s0 and w = w0
       and resp = "\<lparr>jer_Evaluations = [eval0 ''e2'' 0 12, eval0 ''e1'' 9 7], jer_Index = 15\<rparr>"]
  by (simp add: E7_def E0_def eval0_def)

subsection \<open>PauseDeployment\<close>

text \<open>
  C8. \<open>PauseDeployment\<close> requests exactly one write, a status update with no job: when
  pausing, to the paused status and with no evaluation, and the response has the empty
  evaluation id; when resuming, to the running status together with the evaluation that
  \<open>getEval\<close> has just made, and the response has that evaluation's id, which is not empty
  as long as the generated id is not. In both cases the create index and the deployment
  modify index of the response are the index that the write returned.
\<close>

theorem PauseDeployment_response:
  assumes "GenerateUUID E (clock s) \<noteq> []"
  shows "\<exists>update eval.
           trace (snd (PauseDeployment S E w req resp s)) =
             trace s @ [UpsertDeploymentStatusUpdate update eval None]
         \<and> (if Pause req
              then dsu_Status update = DeploymentStatusPaused S \<and> eval = None
              else dsu_Status update = DeploymentStatusRunning S
                 \<and> eval = Some (fst (getEval S E w s)))
         \<and> (case fst (PauseDeployment S E w req resp s) of
               Inl err \<Rightarrow>
                 upsertDeploymentStatusUpdate E (clock s + (if Pause req then 0 else 1))
                   update eval None = Inl err
             | Inr resp' \<Rightarrow>
                 upsertDeploymentStatusUpdate E (clock s + (if Pause req then 0 else 1))
                   update eval None = Inr (EvalCreateIndex resp')
               \<and> DeploymentModifyIndex resp' = EvalCreateIndex resp'
               \<and> (if Pause req then EvalID resp' = []
                    else EvalID resp' = eval_ID (fst (getEval S E w s)) \<and> EvalID resp' \<noteq> []))"
  using assms
  by (cases "Pause req")
     (auto simp: PauseDeployment_def PauseDeployment_target_def getEval_def tick_def emit_def
                 getDeploymentStatusUpdate_def Let_def split: sum.splits)

theorem PauseDeployment_response_witness:
  "GenerateUUID E0 (clock s0) \<noteq> []
   \<and> fst (PauseDeployment S0 E0 w0 \<lparr>dpause_DeploymentID = ''d1'', Pause = True\<rparr>
            \<lparr>EvalID = ''x'', EvalCreateIndex = 0, DeploymentModifyIndex = 0\<rparr> s0) =
       Inr \<lparr>EvalID = [], EvalCreateIndex = 100, DeploymentModifyIndex = 100\<rparr>
   \<and> trace (snd (PauseDeployment S0 E0 w0 \<lparr>dpause_DeploymentID = ''d1'', Pause = True\<rparr>
            \<lparr>EvalID = ''x'', EvalCreateIndex = 0, DeploymentModifyIndex = 0\<rparr> s0)) =
       [UpsertDeploymentStatusUpdate
          \<lparr>dsu_DeploymentID = ''d1'', dsu_Status = ''paused'',
           StatusDescription = ''Deployment is paused''\<rparr> None None]
   \<and> fst (PauseDeployment S0 E0 w0 \<lparr>dpause_DeploymentID = ''d1'', Pause = False\<rparr>
            \<lparr>EvalID = ''x'', EvalCreateIndex = 0, DeploymentModifyIndex = 0\<rparr> s0) =
       Inr \<lparr>EvalID = ''uuid-0'', EvalCreateIndex = 101, DeploymentModifyIndex = 101\<rparr>"
  using PauseDeployment_response
          [of E0 s0 S0 w0 "\<lparr>dpause_DeploymentID = ''d1'', Pause = True\<rparr>"
              "\<lparr>EvalID = ''x'', EvalCreateIndex = 0, DeploymentModifyIndex = 0\<rparr>"]
        PauseDeployment_response
          [of E0 s0 S0 w0 "\<lparr>dpause_DeploymentID = ''d1'', Pause = False\<rparr>"
              "\<lparr>EvalID = ''x'', EvalCreateIndex = 0, DeploymentModifyIndex = 0\<rparr>"]
  by (simp add: PauseDeployment_def PauseDeployment_target_def getEval_def tick_def emit_def
                Let_def S0_def E0_def w0_def s0_def getDeploymentStatusUpdate_def decimal.simps)

subsection \<open>The blocking fetch\<close>

lemma getAllocs_loop_Some:
  assumes "getAllocs_loop E args index resp s = Some y"
  shows "(index < alr_Index resp \<and> y = (Inr (alr_Allocations resp), s)) \<or>
         (alr_Index resp \<le> index \<and> snd y = s\<lparr>clock := clock (snd y)\<rparr> \<and>
          (\<exists>k. (\<forall>i<k. idle_round E args index (clock s + 2 * i)) \<and>
                last_round E args index (clock s + 2 * k) (fst y, clock (snd y))))"
  using assms
proof (induction rule: getAllocs_loop.raw_induct [rotated 1, consumes 1, case_names step])
  case (step loop E args index resp s y)
  show ?case
  proof (cases "alr_Index resp \<le> index")
    case False
    with step(2) show ?thesis by auto
  next
    case le: True
    have zero: "last_round E args index (clock s) (fst y, clock (snd y)) \<Longrightarrow>
                snd y = s\<lparr>clock := clock (snd y)\<rparr> \<Longrightarrow> ?thesis"
    proof -
      assume "last_round E args index (clock s) (fst y, clock (snd y))"
        and "snd y = s\<lparr>clock := clock (snd y)\<rparr>"
      then have "snd y = s\<lparr>clock := clock (snd y)\<rparr> \<and>
          (\<forall>i<0. idle_round E args index (clock s + 2 * i)) \<and>
          last_round E args index (clock s + 2 * 0) (fst y, clock (snd y))"
        by simp
      with le show ?thesis by blast
    qed
    show ?thesis
    proof (cases "Wait E (clock s)")
      case (Some err)
      with le step(2) show ?thesis
        by (intro zero) (auto simp: last_round_def tick_def)
    next
      case None
      show ?thesis
      proof (cases "Allocations E (Suc (clock s)) args")
        case (Inl err)
        with le None step(2) show ?thesis
          by (intro zero) (auto simp: last_round_def tick_def)
      next
        case (Inr resp')
        with le None step(2) have rec: "loop E args index resp' (tick (tick s)) = Some y"
          by (simp add: tick_def)
        from step(1)[OF rec] show ?thesis
        proof
          assume "index < alr_Index resp' \<and> y = (Inr (alr_Allocations resp'), tick (tick s))"
          with None Inr show ?thesis
            by (intro zero) (auto simp: last_round_def tick_def)
        next
          assume a: "alr_Index resp' \<le> index \<and>
            snd y = tick (tick s)\<lparr>clock := clock (snd y)\<rparr> \<and>
            (\<exists>k. (\<forall>i<k. idle_round E args index (clock (tick (tick s)) + 2 * i)) \<and>
                 last_round E args index (clock (tick (tick s)) + 2 * k) (fst y, clock (snd y)))"
          then obtain k where k: "\<forall>i<k. idle_round E args index (clock s + 2 * Suc i)"
              "last_round E args index (clock s + 2 * Suc k) (fst y, clock (snd y))"
            by (auto simp: tick_def)
          from a None Inr have i0: "idle_round E args index (clock s + 2 * 0)"
            by (simp add: idle_round_def)
          have "\<forall>i<Suc k. idle_round E args index (clock s + 2 * i)"
          proof (intro allI impI)
            fix i assume "i < Suc k"
            then show "idle_round E args index (clock s + 2 * i)"
              using i0 k(1) by (cases i) auto
          qed
          moreover from a have "snd y = s\<lparr>clock := clock (snd y)\<rparr>" by (simp add: tick_def)
          ultimately show ?thesis using le k(2) by blast
        qed
      qed
    qed
  qed
qed

lemma getAllocs_loop_last:
  assumes "alr_Index resp \<le> index" and "last_round E args index (clock s) (r, c)"
  shows "getAllocs_loop E args index resp s = Some (r, s\<lparr>clock := c\<rparr>)"
proof (cases "Wait E (clock s)")
  case (Some err)
  with assms show ?thesis
    by (subst getAllocs_loop.simps) (simp add: last_round_def tick_def)
next
  case None
  show ?thesis
  proof (cases "Allocations E (Suc (clock s)) args")
    case (Inl err)
    with None assms show ?thesis
      by (subst getAllocs_loop.simps) (simp add: last_round_def tick_def)
  next
    case (Inr resp')
    with None assms have gt: "index < alr_Index resp'"
      and r: "r = Inr (alr_Allocations resp')" and c: "c = Suc (Suc (clock s))"
      by (simp_all add: last_round_def)
    have "getAllocs_loop E args index resp s = getAllocs_loop E args index resp' (tick (tick s))"
      using None Inr assms(1) by (subst getAllocs_loop.simps) (simp add: tick_def)
    also have "\<dots> = Some (Inr (alr_Allocations resp'), tick (tick s))"
    proof -
      from gt have "\<not> alr_Index resp' \<le> index" by (simp add: not_le)
      then show ?thesis by (subst getAllocs_loop.simps) simp
    qed
    finally show ?thesis using r c by (simp add: tick_def)
  qed
qed

lemma getAllocs_loop_rounds:
  assumes "alr_Index resp \<le> index"
    and "\<forall>i<k. idle_round E args index (clock s + 2 * i)"
    and "last_round E args index (clock s + 2 * k) (r, c)"
  shows "getAllocs_loop E args index resp s = Some (r, s\<lparr>clock := c\<rparr>)"
  using assms
proof (induction k arbitrary: resp s)
  case 0
  then show ?case by (simp add: getAllocs_loop_last)
next
  case (Suc k)
  from Suc.prems(2) have "idle_round E args index (clock s + 2 * 0)" by blast
  then obtain resp' where w: "Wait E (clock s) = None"
    and a: "Allocations E (Suc (clock s)) args = Inr resp'" and le: "alr_Index resp' \<le> index"
    by (auto simp: idle_round_def split: sum.splits)
  have step: "getAllocs_loop E args index resp s = getAllocs_loop E args index resp' (tick (tick s))"
    using w a Suc.prems(1) by (subst getAllocs_loop.simps) (simp add: tick_def)
  have "\<forall>i<k. idle_round E args index (clock (tick (tick s)) + 2 * i)"
  proof (intro allI impI)
    fix i assume "i < k"
    then have "idle_round E args index (clock s + 2 * Suc i)" using Suc.prems(2) by auto
    then show "idle_round E args index (clock (tick (tick s)) + 2 * i)" by (simp add: tick_def)
  qed
  moreover have "last_round E args index (clock (tick (tick s)) + 2 * k) (r, c)"
    using Suc.prems(3) by (simp add: tick_def)
  ultimately have "getAllocs_loop E args index resp' (tick (tick s)) = Some (r, tick (tick s)\<lparr>clock := c\<rparr>)"
    using Suc.IH[OF le] by blast
  with step show ?case by (simp add: tick_def)
qed

text \<open>
  C9. \<open>getAllocs\<close> returns exactly after some number of rounds that each waited on the
  limiter, queried, and got a response with an index not above the requested minimum,
  followed by a last round: it returns the allocations only when that round's response has
  an index strictly above the minimum, and it returns an error only when that round's
  wait or query returned it. Until such a round comes it does not return.
\<close>

theorem getAllocs_returns:
  "getAllocs E w index s = Some (r, s') \<longleftrightarrow>
     s' = s\<lparr>clock := clock s'\<rparr> \<and>
     (\<exists>k. (\<forall>i<k. idle_round E \<lparr>dsr_DeploymentID = dep_ID (d w), MinQueryIndex = index\<rparr> index
                      (clock s + 2 * i)) \<and>
          last_round E \<lparr>dsr_DeploymentID = dep_ID (d w), MinQueryIndex = index\<rparr> index
            (clock s + 2 * k) (r, clock s'))"
proof
  assume "getAllocs E w index s = Some (r, s')"
  from getAllocs_loop_Some[OF this[unfolded getAllocs_def]]
  show "s' = s\<lparr>clock := clock s'\<rparr> \<and>
     (\<exists>k. (\<forall>i<k. idle_round E \<lparr>dsr_DeploymentID = dep_ID (d w), MinQueryIndex = index\<rparr> index
                      (clock s + 2 * i)) \<and>
          last_round E \<lparr>dsr_DeploymentID = dep_ID (d w), MinQueryIndex = index\<rparr> index
            (clock s + 2 * k) (r, clock s'))"
    by (simp add: word_less_nat_alt)
next
  assume a: "s' = s\<lparr>clock := clock s'\<rparr> \<and>
     (\<exists>k. (\<forall>i<k. idle_round E \<lparr>dsr_DeploymentID = dep_ID (d w), MinQueryIndex = index\<rparr> index
                      (clock s + 2 * i)) \<and>
          last_round E \<lparr>dsr_DeploymentID = dep_ID (d w), MinQueryIndex = index\<rparr> index
            (clock s + 2 * k) (r, clock s'))"
  then obtain k where k: "\<forall>i<k. idle_round E \<lparr>dsr_DeploymentID = dep_ID (d w), MinQueryIndex = index\<rparr> index
                      (clock s + 2 * i)"
     "last_round E \<lparr>dsr_DeploymentID = dep_ID (d w), MinQueryIndex = index\<rparr> index
            (clock s + 2 * k) (r, clock s')" by blast
  have "alr_Index \<lparr>alr_Allocations = [], alr_Index = 0\<rparr> \<le> index" by simp
  from getAllocs_loop_rounds[OF this k] a show "getAllocs E w index s = Some (r, s')"
    by (simp add: getAllocs_def)
qed

theorem getAllocs_returns_witness:
  "getAllocs E1 w0 5 s0 = Some (Inr [alloc0 ''a1'' ''A'' (Some True) 8], s0\<lparr>clock := 4\<rparr>)
   \<and> idle_round E1 \<lparr>dsr_DeploymentID = ''d1'', MinQueryIndex = 5\<rparr> 5 0
   \<and> last_round E1 \<lparr>dsr_DeploymentID = ''d1'', MinQueryIndex = 5\<rparr> 5 2
        (Inr [alloc0 ''a1'' ''A'' (Some True) 8], 4)"
  using getAllocs_returns [of E1 w0 5 s0 "Inr [alloc0 ''a1'' ''A'' (Some True) 8]" "s0\<lparr>clock := 4\<rparr>"]
  by (simp add: getAllocs_def getAllocs_loop.simps E1_def E0_def w0_def s0_def tick_def
        idle_round_def last_round_def)

subsection \<open>SetAllocHealth\<close>

lemma fold_unhealthy:
  "fold (\<lambda>alloc m. m(alloc \<mapsto> ())) ids m x = (if x \<in> set ids then Some () else m x)"
  by (induction ids arbitrary: m) auto

lemma unhealthy_of_None: "unhealthy_of ids x = None \<longleftrightarrow> x \<notin> set ids"
  by (simp add: unhealthy_of_def fold_unhealthy)

lemma SetAllocHealth_loop_find:
  "SetAllocHealth_loop E w (unhealthy_of ids) desc allocs s =
     (case find (reverts w ids) allocs of
        None \<Rightarrow> (Return (Inr (None, desc)), s)
      | Some alloc \<Rightarrow>
          (case latestStableJob E w s of
             (Inl err, s') \<Rightarrow> (Return (Inl err), s')
           | (Inr None, s') \<Rightarrow> (Panic, s')
           | (Inr (Some job), s') \<Rightarrow>
               (Return (Inr (Some job, rolling_back desc (Version job))), s')))"
  by (induction allocs) (simp_all add: unhealthy_of_None reverts_def)

text \<open>The loop does not look past the first allocation that is reported unhealthy and in
  a group that reverts automatically.\<close>

lemma find_append_Some: "find P xs = Some a \<Longrightarrow> find P (xs @ ys) = Some a"
  by (induction xs) (auto split: if_splits)

lemma SetAllocHealth_loop_first:
  assumes "find (reverts w ids) allocs = Some a"
  shows "SetAllocHealth_loop E w (unhealthy_of ids) desc (allocs @ rest) s =
         SetAllocHealth_loop E w (unhealthy_of ids) desc [a] s"
proof -
  from assms have "reverts w ids a" by (auto simp: find_Some_iff)
  then have "find (reverts w ids) [a] = Some a" by simp
  moreover from assms have "find (reverts w ids) (allocs @ rest) = Some a"
    by (rule find_append_Some)
  ultimately show ?thesis
    by (simp only: SetAllocHealth_loop_find)
qed





text \<open>
  C5. The request reports allocation \<open>a1\<close> unhealthy; \<open>a1\<close> belongs to group \<open>A\<close>,
  which reverts automatically, and no version of the job is stable. \<open>latestStableJob\<close>
  returns a nil job and no error, and \<open>SetAllocHealth\<close> reads \<open>j.Version\<close> of it: the
  call panics instead of returning a response or an error.
\<close>

theorem SetAllocHealth_nil_job_panics:
  "SetAllocHealth S0 E5 w0 (req0 [''a1'']) resp0 s0 = (Panic, s0\<lparr>clock := 2\<rparr>)"
  by (simp add: req0_def E5_def E0_def s0_def w0_def S0_def alloc0_def job0_def
        SetAllocHealth_def SetAllocHealth_update_def unhealthy_of_def
        autorevert_at_def latestStableJob_def tick_def)

subsection \<open>The watch loop\<close>

text \<open>The scan with its early \<open>break\<close> computes the three flags of the whole list.\<close>

lemma watch_scan_flags:
  "watch_scan w latestEval (c, f, r) allocs =
     (c \<or> list_ex (changed latestEval) allocs,
      f \<or> list_ex (\<lambda>a. changed latestEval a \<and> IsUnhealthy (DeploymentStatus a)) allocs,
      r \<or> list_ex (\<lambda>a. changed latestEval a \<and> IsUnhealthy (DeploymentStatus a)
                   \<and> autorevert_at w (alloc_TaskGroup a)) allocs)"
proof (induction allocs arbitrary: c f r)
  case Nil
  show ?case by simp
next
  case (Cons a allocs)
  show ?case
  proof (cases "DeploymentStatus a")
    case None
    then show ?thesis by (simp add: Cons.IH changed_def)
  next
    case (Some st)
    show ?thesis
    proof (cases "ModifyIndex st \<le> latestEval")
      case True
      then have "\<not> latestEval < ModifyIndex st" by (simp add: not_less)
      with Some True show ?thesis by (simp add: Cons.IH changed_def)
    next
      case False
      then have "latestEval < ModifyIndex st" by (simp add: not_le)
      with Some False show ?thesis
        by (auto simp: Cons.IH changed_def Let_def)
    qed
  qed
qed

lemma watch_scan_scan_flags:
  "watch_scan w latestEval (False, False, False) allocs = scan_flags w latestEval allocs"
  by (simp add: watch_scan_flags scan_flags_def)

lemma watch_latestEval_Inr:
  "latestEvalIndex E w s = (Inr v, s') \<Longrightarrow> watch_latestEval E w s = (Some v, s')"
  by (simp add: watch_latestEval_def)

text \<open>
  C2, as the code has it. In an iteration that reads the latest evaluation index, the scan
  sets its flags for exactly the allocations whose deployment status has a modify index
  above the index just read, the new value of \<open>latestEval\<close>: an evaluation is needed when
  there is one, the deployment should fail when one of them is unhealthy, and a rollback is
  needed when one of them is unhealthy and in a group that reverts automatically. The value
  \<open>latestEval\<close> had before, \<open>previous\<close>, does not enter the scan.
\<close>

theorem watch_cycle_scans_fetched_index:
  assumes "watch_allocs E w previous s = Some (Some allocs, s1)"
    and "latestEvalIndex E w s1 = (Inr fetched, s2)"
  shows "watch_cycle S E w previous s =
           (case watch_act S E w fetched (scan_flags w fetched allocs) s2 of
              (Panic, s3) \<Rightarrow> Some (Panic, s3)
            | (Return v, s3) \<Rightarrow> Some (Return (Some v), s3))"
  using assms
  by (simp add: watch_cycle_def watch_latestEval_Inr watch_scan_scan_flags)

text \<open>The definitions that the evaluations at the example inputs unfold.\<close>

lemmas eval_defs =
  watch_cycle_def watch_allocs_def watch_latestEval_def watch_act_def watch_fail_def
  getAllocs_def getAllocs_loop.simps latestEvalIndex_def latestStableJob_def
  createEvalBatched_def getEval_def getDeploymentStatusUpdate_def rolling_back_def
  decimal.simps tick_def emit_def autorevert_at_def IsUnhealthy_def Let_def
  S0_def E0_def w0_def s0_def alloc0_def job0_def eval0_def

theorem watch_cycle_scans_fetched_index_witness:
  "watch_allocs E2 w0 5 s0 = Some (Some [alloc0 ''a1'' ''B'' (Some True) 10], s0\<lparr>clock := 2\<rparr>)
   \<and> latestEvalIndex E2 w0 (s0\<lparr>clock := 2\<rparr>) = (Inr 20, s0\<lparr>clock := 4\<rparr>)
   \<and> scan_flags w0 20 [alloc0 ''a1'' ''B'' (Some True) 10] = (False, False, False)
   \<and> watch_cycle S0 E2 w0 5 s0 = Some (Return (Some 20), s0\<lparr>clock := 4\<rparr>)"
  using watch_cycle_scans_fetched_index
          [where E = E2 and w = w0 and previous = 5 and s = s0 and S = S0
             and allocs = "[alloc0 ''a1'' ''B'' (Some True) 10]" and ?s1.0 = "s0\<lparr>clock := 2\<rparr>"
             and fetched = 20 and ?s2.0 = "s0\<lparr>clock := 4\<rparr>"]
  by (simp add: eval_defs E2_def scan_flags_def changed_def)

text \<open>
  C2 as the specification states it fails: \<open>latestEval\<close> is 5 before the iteration and
  allocation \<open>a1\<close> changed at index 10, above 5, so that statement has the scan ask for an
  evaluation; the
  iteration reads the latest evaluation index 20, scans against 20, sets no flag and
  starts no batched evaluation.
\<close>

theorem watch_scan_previous_watermark_counterexample:
  "watch_allocs E2 w0 5 s0 = Some (Some [alloc0 ''a1'' ''B'' (Some True) 10], s0\<lparr>clock := 2\<rparr>)
   \<and> scan_flags w0 5 [alloc0 ''a1'' ''B'' (Some True) 10] = (True, False, False)
   \<and> watch_cycle S0 E2 w0 5 s0 = Some (Return (Some 20), s0\<lparr>clock := 4\<rparr>)
   \<and> watch_cycle S0 E2 w0 5 s0 \<noteq>
       (case watch_act S0 E2 w0 20 (scan_flags w0 5 [alloc0 ''a1'' ''B'' (Some True) 10])
               (s0\<lparr>clock := 4\<rparr>) of
          (Panic, s3) \<Rightarrow> Some (Panic, s3)
        | (Return v, s3) \<Rightarrow> Some (Return (Some v), s3))"
  by (simp add: eval_defs E2_def scan_flags_def changed_def)

lemma watch_act_latestEval:
  assumes "watch_act S E w fetched flags s = (Return v, s')"
  shows "v = fetched \<or>
         (\<exists>u e job. dsu_Status u = DeploymentStatusFailed S \<and>
                     upsertDeploymentStatusUpdate E (clock s' - 1) u e job = Inr v)"
  using assms
  by (auto simp: watch_act_def watch_fail_def createEvalBatched_def latestStableJob_def getEval_def
        getDeploymentStatusUpdate_def emit_def tick_def Let_def
      split: prod.splits if_splits sum.splits option.splits go.splits)

text \<open>
  C4, as the code has it. An iteration that reads the latest evaluation index assigns
  \<open>latestEval\<close> that index, whatever its value before, and afterwards only the index
  returned by a successful write of the failed status. So \<open>latestEval\<close> does not decrease
  across such an iteration when the index read and the indexes the write returns are not
  below the old value; the loop itself compares nothing with the old value.
\<close>

theorem watch_cycle_latestEval:
  assumes "watch_allocs E w previous s = Some (Some allocs, s1)"
    and "latestEvalIndex E w s1 = (Inr fetched, s2)"
  shows "case watch_cycle S E w previous s of
           None \<Rightarrow> False
         | Some (Panic, s3) \<Rightarrow> True
         | Some (Return None, s3) \<Rightarrow> False
         | Some (Return (Some v), s3) \<Rightarrow>
             (v = fetched \<or>
              (\<exists>u e job. dsu_Status u = DeploymentStatusFailed S \<and>
                          upsertDeploymentStatusUpdate E (clock s3 - 1) u e job = Inr v))
           \<and> (previous \<le> fetched \<and>
                (\<forall>n u e job i. upsertDeploymentStatusUpdate E n u e job = Inr i \<longrightarrow> previous \<le> i)
                \<longrightarrow> previous \<le> v)"
proof (cases "watch_act S E w fetched (watch_scan w fetched (False, False, False) allocs) s2")
  case (Pair r s3)
  show ?thesis
  proof (cases r)
    case Panic
    with Pair assms show ?thesis
      by (simp add: watch_cycle_def watch_latestEval_Inr)
  next
    case (Return v)
    with Pair assms have c: "watch_cycle S E w previous s = Some (Return (Some v), s3)"
      by (simp add: watch_cycle_def watch_latestEval_Inr)
    from watch_act_latestEval[OF Pair[unfolded Return]]
    have v: "v = fetched \<or>
         (\<exists>u e job. dsu_Status u = DeploymentStatusFailed S \<and>
                     upsertDeploymentStatusUpdate E (clock s3 - 1) u e job = Inr v)" .
    then have "previous \<le> fetched \<and>
                (\<forall>n u e job i. upsertDeploymentStatusUpdate E n u e job = Inr i \<longrightarrow> previous \<le> i)
                \<longrightarrow> previous \<le> v"
      by blast
    with v c show ?thesis by simp
  qed
qed

theorem watch_cycle_latestEval_witness:
  "watch_allocs E3s w0 0 s0 = Some (Some [alloc0 ''a1'' ''A'' (Some False) 10], s0\<lparr>clock := 2\<rparr>)
   \<and> latestEvalIndex E3s w0 (s0\<lparr>clock := 2\<rparr>) = (Inr 5, s0\<lparr>clock := 4\<rparr>)
   \<and> fst (the (watch_cycle S0 E3s w0 0 s0)) = Return (Some 106)
   \<and> upsertDeploymentStatusUpdate E3s 6
        \<lparr>dsu_DeploymentID = ''d1'', dsu_Status = ''failed'',
         StatusDescription = ''Failed due to unhealthy allocations - rolling back to job version 2''\<rparr>
        (Some (fst (getEval S0 E3s w0 (s0\<lparr>clock := 5\<rparr>)))) (Some (job0 2 True)) = Inr 106
   \<and> (0::uint64) \<le> 106"
  using watch_cycle_latestEval
          [where E = E3s and w = w0 and previous = 0 and s = s0 and S = S0
             and allocs = "[alloc0 ''a1'' ''A'' (Some False) 10]" and ?s1.0 = "s0\<lparr>clock := 2\<rparr>"
             and fetched = 5 and ?s2.0 = "s0\<lparr>clock := 4\<rparr>"]
  by (simp add: eval_defs E3s_def E3_def)

text \<open>
  C4 as the specification states it fails: with \<open>latestEval = 50\<close> and a latest evaluation whose snapshot
  index is 30, the iteration leaves \<open>latestEval = 30\<close>; with \<open>latestEval = 7\<close> and a
  failing read of the evaluations, it leaves \<open>latestEval = 0\<close>.
\<close>

theorem watch_latestEval_decreases_counterexample:
  "watch_cycle S0 E4s w0 50 s0 = Some (Return (Some 30), s0\<lparr>clock := 4\<rparr>)
   \<and> (30::uint64) < 50
   \<and> watch_cycle S0 E4 w0 7 s0 =
       Some (Return (Some 0),
             s0\<lparr>clock := 4, trace := [Log FailedLastEvaluationIndex (Failure ''no leader'')],
                deferred := 1\<rparr>)
   \<and> (0::uint64) < 7"
  by (simp add: eval_defs E4s_def E4_def E2_def)

text \<open>With \<open>rollback\<close> set, the branch panics whenever the lookup gives no job, and
  then it has requested no write.\<close>

lemma watch_fail_without_stable_job:
  assumes "case fst (latestStableJob E w s) of Inr (Some job) \<Rightarrow> False | _ \<Rightarrow> True"
  shows "fst (watch_fail S E w latestEval True s) = Panic
       \<and> filter (\<lambda>c. \<forall>site err. c \<noteq> Log site err)
           (trace (snd (watch_fail S E w latestEval True s))) =
         filter (\<lambda>c. \<forall>site err. c \<noteq> Log site err) (trace s)"
  using assms
  by (auto simp: watch_fail_def latestStableJob_def tick_def emit_def
      split: sum.splits option.splits)

text \<open>
  C3. An unhealthy allocation of a group that reverts automatically has changed, so the
  iteration sets \<open>failDeployment\<close> and \<open>rollback\<close>. With no stable version of the job,
  and also when the lookup fails (which is logged), \<open>j\<close> is nil and the iteration reads
  \<open>j.Version\<close>: it panics before the write of the failed status, which is never requested.
\<close>

theorem watch_fail_nil_job_panics:
  "watch_cycle S0 E3 w0 0 s0 = Some (Panic, s0\<lparr>clock := 5\<rparr>)
   \<and> watch_cycle S0 E3e w0 0 s0 =
       Some (Panic, s0\<lparr>clock := 5, trace := [Log FailedLookupStableJob (Failure ''no leader'')]\<rparr>)"
  by (simp add: eval_defs E3_def E3e_def)

subsection \<open>The evaluation batcher\<close>

text \<open>Every trigger on a watcher with no batch outstanding starts one more deferred
  function, since no trigger marks a batch outstanding.\<close>

lemma createEvalBatched_triggers:
  "\<not> outstandingBatch w \<Longrightarrow>
   batcher S E (replicate n Trigger) (w, s) = (w, s\<lparr>deferred := deferred s + n\<rparr>)"
  by (induction n arbitrary: s) (simp_all add: createEvalBatched_def)

text \<open>
  C1. Two triggers in a row on a fresh watcher, both before any deferred function wakes
  up: the first leaves \<open>outstandingBatch\<close> false, so the second starts a deferred function
  as well, and when both have woken up two evaluation-creation writes have been requested,
  where the specification has exactly one.
\<close>

theorem createEvalBatched_two_triggers:
  "batcher S0 E0 [Trigger, Trigger] (w0, s0) = (w0, s0\<lparr>deferred := 2\<rparr>)
   \<and> outstandingBatch (fst (batcher S0 E0 [Trigger] (w0, s0))) = False
   \<and> evaluation_writes (snd (batcher S0 E0 [Trigger, Trigger, WakeUp, WakeUp] (w0, s0))) = 2"
  by (simp add: createEvalBatched_deferred_def createEval_def evaluation_writes_def eval_defs)

end
